theory Spec2Isabelle
  imports Main "HOL-Library.Word"
begin

unbundle bit_operations_syntax

section \<open>Go slices of 64-bit words\<close>

text \<open>
  A Go slice is a window on a backing array: it has a length and a capacity.  The model
  keeps the part of the backing array that starts at the slice's first element, so the
  capacity is the length of \<open>backing\<close> and the elements are its first \<open>len\<close> entries.
  Every array of this development is referenced by one slice only, so no store is needed.
\<close>

record slice =
  backing :: "64 word list"
  len :: nat

definition cap :: "slice \<Rightarrow> nat" where
  "cap s = length (backing s)"

definition elems :: "slice \<Rightarrow> 64 word list" where
  "elems s = take (len s) (backing s)"

definition wf_slice :: "slice \<Rightarrow> bool" where
  "wf_slice s = (len s \<le> cap s)"

datatype panic = SliceBoundsOutOfRange

text \<open>The composite literal \<open>[]uint64{w}\<close>: length 1, capacity 1.\<close>

definition slice_literal :: "64 word \<Rightarrow> slice" where
  "slice_literal w = \<lparr>backing = [w], len = 1\<rparr>"

text \<open>
  The slice expression \<open>s[0:n]\<close>.  For a slice operand Go bounds the upper index by the
  capacity, not by the length; an index that is negative or beyond the capacity panics.
\<close>

definition slice_to :: "slice \<Rightarrow> int \<Rightarrow> panic + slice" where
  "slice_to s n =
     (if n < 0 \<or> int (cap s) < n then Inl SliceBoundsOutOfRange
      else Inr (s\<lparr>len := nat n\<rparr>))"

text \<open>
  \<open>append(s, t...)\<close>.  When the capacity of \<open>s\<close> suffices the elements are written in
  place; otherwise a new zeroed array is allocated.  The language leaves the capacity of
  the new array to the implementation: \<open>grow\<close> maps the old capacity and the needed length
  to it (a value below the needed length counts as the needed length).
\<close>

definition append_slice :: "(nat \<Rightarrow> nat \<Rightarrow> nat) \<Rightarrow> slice \<Rightarrow> slice \<Rightarrow> slice" where
  "append_slice grow s t =
     (let need = len s + len t in
      if need \<le> cap s
      then \<lparr>backing = take (len s) (backing s) @ elems t @ drop need (backing s), len = need\<rparr>
      else \<lparr>backing = elems s @ elems t @ replicate (grow (cap s) need - need) 0, len = need\<rparr>)"

text \<open>
  The capacity the gc runtime gives the new array when it reallocates a slice of 8-byte
  elements, for results of at most 16 elements: twice the old capacity, or the needed
  length when that is larger, rounded up to an allocation size class (8, 16, 24, 32, 48,
  64, 80, 96, 112 or 128 bytes).  It is used for concrete runs only; every general
  statement below holds for any \<open>grow\<close>.
\<close>

definition gc_growth :: "nat \<Rightarrow> nat \<Rightarrow> nat" where
  "gc_growth old_cap need =
     (let newcap = (if 2 * old_cap < need then need else 2 * old_cap)
      in if newcap \<le> 4 then newcap else newcap + newcap mod 2)"

section \<open>Instruction encoders of the extended ISA\<close>

text \<open>
  Modelled from the spec: \<open>constants.go\<close> is not among the sources.  The values are the
  kernel's: instruction class JMP, operation codes CALL and EXIT, and the zero that
  stands for an unused field.
\<close>

definition InsClassJmp :: "8 word" where "InsClassJmp = 0x05"
definition JmpCALL :: "8 word" where "JmpCALL = 0x80"
definition JmpExit :: "8 word" where "JmpExit = 0x90"
definition UnusedField :: "'a::len word" where "UnusedField = 0"

text \<open>
  Modelled from the spec: \<open>encoding_functions.go\<close> is not among the sources.  Section 4.1:
  byte 0 is the opcode, byte 1 packs the destination register (low 4 bits) and the source
  register (high 4 bits), bytes 2-3 are the signed 16-bit offset, bytes 4-7 the 32-bit
  immediate.
\<close>

definition encode_fields :: "8 word \<Rightarrow> 8 word \<Rightarrow> 8 word \<Rightarrow> 16 word \<Rightarrow> 32 word \<Rightarrow> 64 word" where
  "encode_fields opcode dst src off imm =
     ucast opcode OR push_bit 8 (ucast (dst AND 0x0f)) OR push_bit 12 (ucast (src AND 0x0f))
       OR push_bit 16 (ucast off) OR push_bit 32 (ucast imm)"

text \<open>
  Modelled from the spec: a jump opcode is the 3-bit class, the source-operand flag in
  bit 3 (clear for an immediate operand, set for a register operand) and the operation
  code in bits 4-7; the displacement travels in the offset field.
\<close>

definition encodeImmediateJmpOperation ::
  "8 word \<Rightarrow> 8 word \<Rightarrow> 8 word \<Rightarrow> 32 word \<Rightarrow> 16 word \<Rightarrow> 64 word" where
  "encodeImmediateJmpOperation ins insClass dstReg imm off =
     encode_fields ((ins AND 0xf0) OR (insClass AND 0x07)) dstReg UnusedField off imm"

definition encodeRegisterJmpOperation ::
  "8 word \<Rightarrow> 8 word \<Rightarrow> 8 word \<Rightarrow> 8 word \<Rightarrow> 16 word \<Rightarrow> 64 word" where
  "encodeRegisterJmpOperation ins insClass dstReg srcReg off =
     encode_fields ((ins AND 0xf0) OR 0x08 OR (insClass AND 0x07)) dstReg srcReg off UnusedField"

section \<open>The program tree (jmp_operations.go)\<close>

text \<open>
  The three structs that implement the \<open>Operation\<close> interface in this file.  A successor
  slot holds an interface value, which may be nil: an \<open>option\<close>.  A generator is a closure
  over the program; the program is the state \<open>'p\<close> that it reads and updates.
\<close>

datatype 'p Operation =
  IMMJMPOperation
    (instructionNumber: "32 word")
    (Instruction: "8 word")
    (InsClass: "8 word")
    (DstReg: "8 word")
    (Imm: "32 word")
    (TrueBranchNextInstr: "'p Operation option")
    (trueBranchGenerator: "('p \<Rightarrow> 'p Operation option \<times> 'p) option")
    (FalseBranchNextInstr: "'p Operation option")
    (FalseBranchSize: "16 word")
    (falseBranchGenerator: "('p \<Rightarrow> ('p Operation option \<times> 16 word) \<times> 'p) option")
| CallOperation
    (instructionNumber: "32 word")
    (fnNumber: "32 word")
    (nextInstr: "'p Operation option")
| RegJMPOperation
    (instructionNumber: "32 word")
    (Instruction: "8 word")
    (InsClass: "8 word")
    (DstReg: "8 word")
    (SrcReg: "8 word")
    (TrueBranchNextInstr: "'p Operation option")
    (trueBranchGenerator: "('p \<Rightarrow> 'p Operation option \<times> 'p) option")
    (FalseBranchNextInstr: "'p Operation option")
    (FalseBranchSize: "16 word")
    (falseBranchGenerator: "('p \<Rightarrow> ('p Operation option \<times> 16 word) \<times> 'p) option")

subsection \<open>GenerateBytecode\<close>

text \<open>
  The result is the returned slice, or the panic of the slice expression
  \<open>GenerateBytecode()[0:c.FalseBranchSize]\<close>, whose index is the signed 16-bit size.
\<close>

fun GenerateBytecode :: "(nat \<Rightarrow> nat \<Rightarrow> nat) \<Rightarrow> 'p Operation \<Rightarrow> panic + slice" where
  "GenerateBytecode grow (IMMJMPOperation n ins cls dst imm t tg f fsz fg) =
     (let bytecode = slice_literal (encodeImmediateJmpOperation ins cls dst imm fsz) in
      case (case f of
              None \<Rightarrow> Inr bytecode
            | Some fo \<Rightarrow>
                (case GenerateBytecode grow fo of
                   Inl e \<Rightarrow> Inl e
                 | Inr full \<Rightarrow>
                     (case slice_to full (sint fsz) of
                        Inl e \<Rightarrow> Inl e
                      | Inr falseBranchBytecode \<Rightarrow>
                          Inr (append_slice grow bytecode falseBranchBytecode)))) of
        Inl e \<Rightarrow> Inl e
      | Inr bytecode \<Rightarrow>
          (case t of
             None \<Rightarrow> Inr bytecode
           | Some to \<Rightarrow>
               (case GenerateBytecode grow to of
                  Inl e \<Rightarrow> Inl e
                | Inr tb \<Rightarrow> Inr (append_slice grow bytecode tb))))"
| "GenerateBytecode grow (CallOperation n fn nx) =
     (let bytecode = slice_literal (encodeImmediateJmpOperation JmpCALL InsClassJmp UnusedField fn 0) in
      case nx of
        None \<Rightarrow> Inr bytecode
      | Some no \<Rightarrow>
          (case GenerateBytecode grow no of
             Inl e \<Rightarrow> Inl e
           | Inr nb \<Rightarrow> Inr (append_slice grow bytecode nb)))"
| "GenerateBytecode grow (RegJMPOperation n ins cls dst src t tg f fsz fg) =
     (let bytecode = slice_literal (encodeRegisterJmpOperation ins cls dst src fsz) in
      case (case f of
              None \<Rightarrow> Inr bytecode
            | Some fo \<Rightarrow>
                (case GenerateBytecode grow fo of
                   Inl e \<Rightarrow> Inl e
                 | Inr full \<Rightarrow>
                     (case slice_to full (sint fsz) of
                        Inl e \<Rightarrow> Inl e
                      | Inr falseBranchBytecode \<Rightarrow>
                          Inr (append_slice grow bytecode falseBranchBytecode)))) of
        Inl e \<Rightarrow> Inl e
      | Inr bytecode \<Rightarrow>
          (case t of
             None \<Rightarrow> Inr bytecode
           | Some to \<Rightarrow>
               (case GenerateBytecode grow to of
                  Inl e \<Rightarrow> Inl e
                | Inr tb \<Rightarrow> Inr (append_slice grow bytecode tb))))"

subsection \<open>GenerateNextInstruction\<close>

text \<open>
  \<open>strategy prog\<close> is \<open>prog.Gen.GenerateNextInstruction(prog)\<close>: the node (or nil) that the
  program's generator returns, and the program after the call.  The node is returned
  updated, with the program.
\<close>

fun GenerateNextInstruction ::
  "('p \<Rightarrow> 'p Operation option \<times> 'p) \<Rightarrow> 'p Operation \<Rightarrow> 'p \<Rightarrow> 'p Operation \<times> 'p" where
  "GenerateNextInstruction strategy (IMMJMPOperation n ins cls dst imm t tg f fsz fg) prog =
     (let (f', fsz', prog1) =
            (case f of
               Some fo \<Rightarrow>
                 (let (fo', prog') = GenerateNextInstruction strategy fo prog
                  in (Some fo', fsz, prog'))
             | None \<Rightarrow>
                 (case fg of
                    Some g \<Rightarrow> (let ((nextInstr, bSize), prog') = g prog in (nextInstr, bSize, prog'))
                  | None \<Rightarrow> (None, fsz, prog)));
          (t', prog2) =
            (case t of
               Some to \<Rightarrow>
                 (let (to', prog') = GenerateNextInstruction strategy to prog1
                  in (Some to', prog'))
             | None \<Rightarrow>
                 (case tg of
                    Some g \<Rightarrow> g prog1
                  | None \<Rightarrow> (None, prog1)))
      in (IMMJMPOperation n ins cls dst imm t' tg f' fsz' fg, prog2))"
| "GenerateNextInstruction strategy (CallOperation n fn nx) prog =
     (case nx of
        Some no \<Rightarrow>
          (let (no', prog') = GenerateNextInstruction strategy no prog
           in (CallOperation n fn (Some no'), prog'))
      | None \<Rightarrow>
          (let (r, prog') = strategy prog in (CallOperation n fn r, prog')))"
| "GenerateNextInstruction strategy (RegJMPOperation n ins cls dst src t tg f fsz fg) prog =
     (let (f', fsz', prog1) =
            (case f of
               Some fo \<Rightarrow>
                 (let (fo', prog') = GenerateNextInstruction strategy fo prog
                  in (Some fo', fsz, prog'))
             | None \<Rightarrow>
                 (case fg of
                    Some g \<Rightarrow> (let ((nextInstr, bSize), prog') = g prog in (nextInstr, bSize, prog'))
                  | None \<Rightarrow> (None, fsz, prog)));
          (t', prog2) =
            (case t of
               Some to \<Rightarrow>
                 (let (to', prog') = GenerateNextInstruction strategy to prog1
                  in (Some to', prog'))
             | None \<Rightarrow>
                 (case tg of
                    Some g \<Rightarrow> g prog1
                  | None \<Rightarrow> (None, prog1)))
      in (RegJMPOperation n ins cls dst src t' tg f' fsz' fg, prog2))"

subsection \<open>NumerateInstruction\<close>

text \<open>
  The counter is a \<open>uint32\<close>; \<open>uint32(c.FalseBranchSize)\<close> and \<open>int(c.FalseBranchSize)\<close>
  sign-extend the 16-bit size.  The returned \<open>int\<close> has 64 bits on the platforms the
  program is built for.
\<close>

fun NumerateInstruction :: "'p Operation \<Rightarrow> 32 word \<Rightarrow> 'p Operation \<times> 64 word" where
  "NumerateInstruction (IMMJMPOperation n ins cls dst imm t tg f fsz fg) instrNo =
     (let instrNo1 = instrNo + 1;
          f' = (case f of
                  Some fo \<Rightarrow> Some (fst (NumerateInstruction fo instrNo1))
                | None \<Rightarrow> None);
          instrNo2 = instrNo1 + scast fsz
      in case t of
           Some to \<Rightarrow>
             (let (to', k) = NumerateInstruction to instrNo2
              in (IMMJMPOperation instrNo ins cls dst imm (Some to') tg f' fsz fg, 1 + scast fsz + k))
         | None \<Rightarrow> (IMMJMPOperation instrNo ins cls dst imm None tg f' fsz fg, 1 + scast fsz))"
| "NumerateInstruction (CallOperation n fn nx) instrNo =
     (let instrNo1 = instrNo + 1
      in case nx of
           Some no \<Rightarrow>
             (let (no', k) = NumerateInstruction no instrNo1
              in (CallOperation instrNo fn (Some no'), 1 + k))
         | None \<Rightarrow> (CallOperation instrNo fn None, 1))"
| "NumerateInstruction (RegJMPOperation n ins cls dst src t tg f fsz fg) instrNo =
     (let instrNo1 = instrNo + 1;
          f' = (case f of
                  Some fo \<Rightarrow> Some (fst (NumerateInstruction fo instrNo1))
                | None \<Rightarrow> None);
          instrNo2 = instrNo1 + scast fsz
      in case t of
           Some to \<Rightarrow>
             (let (to', k) = NumerateInstruction to instrNo2
              in (RegJMPOperation instrNo ins cls dst src (Some to') tg f' fsz fg, 1 + scast fsz + k))
         | None \<Rightarrow> (RegJMPOperation instrNo ins cls dst src None tg f' fsz fg, 1 + scast fsz))"

subsection \<open>SetNextInstruction\<close>

fun SetNextInstruction :: "'p Operation \<Rightarrow> 'p Operation option \<Rightarrow> 'p Operation" where
  "SetNextInstruction (IMMJMPOperation n ins cls dst imm t tg f fsz fg) next =
     (case t of
        Some to \<Rightarrow> IMMJMPOperation n ins cls dst imm (Some (SetNextInstruction to next)) tg f fsz fg
      | None \<Rightarrow> IMMJMPOperation n ins cls dst imm next tg f fsz fg)"
| "SetNextInstruction (CallOperation n fn nx) next =
     (case nx of
        Some no \<Rightarrow> CallOperation n fn (Some (SetNextInstruction no next))
      | None \<Rightarrow> CallOperation n fn next)"
| "SetNextInstruction (RegJMPOperation n ins cls dst src t tg f fsz fg) next =
     (case t of
        Some to \<Rightarrow> RegJMPOperation n ins cls dst src (Some (SetNextInstruction to next)) tg f fsz fg
      | None \<Rightarrow> RegJMPOperation n ins cls dst src next tg f fsz fg)"

subsection \<open>ExitOperation and GuardJump\<close>

definition ExitOperation :: "'p Operation" where
  "ExitOperation =
     IMMJMPOperation 0 JmpExit InsClassJmp 0 UnusedField None None None 0 None"

text \<open>
  The true-branch closure of \<open>GuardJump\<close> calls the generator of the program it is given:
  it is \<open>strategy\<close> itself.
\<close>

definition GuardJump ::
  "('p \<Rightarrow> 'p Operation option \<times> 'p) \<Rightarrow> 8 word \<Rightarrow> 8 word \<Rightarrow> 8 word \<Rightarrow> 32 word \<Rightarrow> 'p Operation" where
  "GuardJump strategy ins insClass dstReg imm =
     IMMJMPOperation 0 ins insClass dstReg imm
       None (Some strategy)
       None 0 (Some (\<lambda>prog. ((Some ExitOperation, 1), prog)))"


section \<open>Instruction constructors of the two ISAs\<close>

text \<open>
  Only the tests of these constructors and of \<open>encodeInstruction\<close> are among the sources
  (\<open>st_ld_instructions_test.go\<close> for the extended ISA, the jump test of the word-oriented
  ISA).  The definitions of this section follow the spec, and the fields and words the
  tests expect.
\<close>

text \<open>
  Modelled from the spec: the operand of a generic constructor (\<open>Src\<close> in the tests) is a
  register, given by its numeric identifier, or a 32-bit immediate.
\<close>

datatype Src = RegOperand "32 word" | ImmOperand "32 word"

subsection \<open>Extended ISA: loads and stores\<close>

text \<open>
  Modelled from the spec: the generated protocol-buffer enumerations are missing.  The
  instruction classes, sizes and modes carry the numbers of the kernel ISA, which are the
  numbers the expected words of the test decode to (class in bits 0-2, size in bits 3-4,
  mode in bits 5-7 of the opcode).
\<close>

datatype pb_InsClass =
  InsClass_InsClassLd | InsClass_InsClassLdx | InsClass_InsClassSt | InsClass_InsClassStx
| InsClass_InsClassAlu | InsClass_InsClassJmp | InsClass_InsClassJmp32 | InsClass_InsClassAlu64

datatype pb_StLdSize =
  StLdSize_StLdSizeW | StLdSize_StLdSizeH | StLdSize_StLdSizeB | StLdSize_StLdSizeDW

datatype pb_StLdMode = StLdMode_StLdModeIMM | StLdMode_StLdModeMEM

fun InsClass_number :: "pb_InsClass \<Rightarrow> 8 word" where
  "InsClass_number InsClass_InsClassLd = 0x00"
| "InsClass_number InsClass_InsClassLdx = 0x01"
| "InsClass_number InsClass_InsClassSt = 0x02"
| "InsClass_number InsClass_InsClassStx = 0x03"
| "InsClass_number InsClass_InsClassAlu = 0x04"
| "InsClass_number InsClass_InsClassJmp = 0x05"
| "InsClass_number InsClass_InsClassJmp32 = 0x06"
| "InsClass_number InsClass_InsClassAlu64 = 0x07"

fun StLdSize_number :: "pb_StLdSize \<Rightarrow> 8 word" where
  "StLdSize_number StLdSize_StLdSizeW = 0x00"
| "StLdSize_number StLdSize_StLdSizeH = 0x08"
| "StLdSize_number StLdSize_StLdSizeB = 0x10"
| "StLdSize_number StLdSize_StLdSizeDW = 0x18"

fun StLdMode_number :: "pb_StLdMode \<Rightarrow> 8 word" where
  "StLdMode_number StLdMode_StLdModeIMM = 0x00"
| "StLdMode_number StLdMode_StLdModeMEM = 0x60"

text \<open>
  Modelled from the spec: the instruction message is missing.  Its fields are those the
  test reads: the memory opcode (mode, size, class), the two registers, the offset and the
  immediate.  \<open>pb_PseudoImmediate\<close> is the companion word of the wide-immediate form, when
  one is requested: the high 32 bits of the descriptor.
\<close>

record MemOpcode =
  Mode :: pb_StLdMode
  Size :: pb_StLdSize
  InstructionClass :: pb_InsClass

record pb_Instruction =
  pb_Opcode :: MemOpcode
  pb_DstReg :: "32 word"
  pb_SrcReg :: "32 word"
  pb_Offset :: "32 word"
  pb_Immediate :: "32 word"
  pb_PseudoImmediate :: "32 word option"

text \<open>
  Modelled from the spec: the register enumeration and the pseudo-register tag of the
  map load are missing; the numbers are the kernel's.
\<close>

definition Reg_R0 :: "32 word" where "Reg_R0 = 0"
definition Reg_R9 :: "32 word" where "Reg_R9 = 9"
definition PseudoMapFD :: "32 word" where "PseudoMapFD = 1"

text \<open>
  Modelled from the spec: \<open>st_ld_instructions.go\<close> is missing.  A store with a register
  operand is of class STX and carries the register as source; a store with an immediate
  operand is of class ST and carries the immediate, its source register unused.  A load
  is of class LDX.  These are the fields the test expects of each constructor.
\<close>

definition newStoreOperation :: "pb_StLdSize \<Rightarrow> 32 word \<Rightarrow> Src \<Rightarrow> 16 word \<Rightarrow> pb_Instruction" where
  "newStoreOperation sz dst src offset =
     (case src of
        RegOperand r \<Rightarrow>
          \<lparr>pb_Opcode = \<lparr>Mode = StLdMode_StLdModeMEM, Size = sz, InstructionClass = InsClass_InsClassStx\<rparr>,
           pb_DstReg = dst, pb_SrcReg = r, pb_Offset = scast offset, pb_Immediate = 0,
           pb_PseudoImmediate = None\<rparr>
      | ImmOperand i \<Rightarrow>
          \<lparr>pb_Opcode = \<lparr>Mode = StLdMode_StLdModeMEM, Size = sz, InstructionClass = InsClass_InsClassSt\<rparr>,
           pb_DstReg = dst, pb_SrcReg = UnusedField, pb_Offset = scast offset, pb_Immediate = i,
           pb_PseudoImmediate = None\<rparr>)"

definition newLoadOperation :: "pb_StLdSize \<Rightarrow> 32 word \<Rightarrow> 32 word \<Rightarrow> 16 word \<Rightarrow> pb_Instruction" where
  "newLoadOperation sz dst src offset =
     \<lparr>pb_Opcode = \<lparr>Mode = StLdMode_StLdModeMEM, Size = sz, InstructionClass = InsClass_InsClassLdx\<rparr>,
      pb_DstReg = dst, pb_SrcReg = src, pb_Offset = scast offset, pb_Immediate = 0,
      pb_PseudoImmediate = None\<rparr>"

definition StDW :: "32 word \<Rightarrow> Src \<Rightarrow> 16 word \<Rightarrow> pb_Instruction" where
  "StDW = newStoreOperation StLdSize_StLdSizeDW"

definition StW :: "32 word \<Rightarrow> Src \<Rightarrow> 16 word \<Rightarrow> pb_Instruction" where
  "StW = newStoreOperation StLdSize_StLdSizeW"

definition StH :: "32 word \<Rightarrow> Src \<Rightarrow> 16 word \<Rightarrow> pb_Instruction" where
  "StH = newStoreOperation StLdSize_StLdSizeH"

definition StB :: "32 word \<Rightarrow> Src \<Rightarrow> 16 word \<Rightarrow> pb_Instruction" where
  "StB = newStoreOperation StLdSize_StLdSizeB"

definition LdDW :: "32 word \<Rightarrow> 32 word \<Rightarrow> 16 word \<Rightarrow> pb_Instruction" where
  "LdDW = newLoadOperation StLdSize_StLdSizeDW"

definition LdW :: "32 word \<Rightarrow> 32 word \<Rightarrow> 16 word \<Rightarrow> pb_Instruction" where
  "LdW = newLoadOperation StLdSize_StLdSizeW"

definition LdH :: "32 word \<Rightarrow> 32 word \<Rightarrow> 16 word \<Rightarrow> pb_Instruction" where
  "LdH = newLoadOperation StLdSize_StLdSizeH"

definition LdB :: "32 word \<Rightarrow> 32 word \<Rightarrow> 16 word \<Rightarrow> pb_Instruction" where
  "LdB = newLoadOperation StLdSize_StLdSizeB"

text \<open>
  Modelled from the spec: the map load by descriptor is the wide-immediate form; its first
  word has offset zero, the descriptor's low 32 bits as immediate and the pseudo-register
  tag as source; it requests the companion word.
\<close>

definition LdMapByFd :: "32 word \<Rightarrow> 32 word \<Rightarrow> pb_Instruction" where
  "LdMapByFd dst fd =
     \<lparr>pb_Opcode = \<lparr>Mode = StLdMode_StLdModeIMM, Size = StLdSize_StLdSizeDW,
                    InstructionClass = InsClass_InsClassLd\<rparr>,
      pb_DstReg = dst, pb_SrcReg = PseudoMapFD, pb_Offset = 0, pb_Immediate = fd,
      pb_PseudoImmediate = Some 0\<rparr>"

text \<open>
  Modelled from the spec: \<open>encodeInstruction\<close> is missing.  Section 4.1: an instruction is
  one 64-bit word, laid out as \<open>encode_fields\<close> has it; the wide-immediate map load is two,
  the second a zero-opcode word with the descriptor's high 32 bits as immediate.
  Encoding fails on an opcode and class that do not go together, and when the companion
  word is requested of an instruction that is not the map load.
\<close>

datatype encode_error = UnrecognizedOpcode | NotMapLoad

definition is_memory_class :: "pb_InsClass \<Rightarrow> bool" where
  "is_memory_class c =
     (case c of InsClass_InsClassLd \<Rightarrow> True | InsClass_InsClassLdx \<Rightarrow> True
      | InsClass_InsClassSt \<Rightarrow> True | InsClass_InsClassStx \<Rightarrow> True | _ \<Rightarrow> False)"

definition is_map_load :: "MemOpcode \<Rightarrow> bool" where
  "is_map_load oc =
     (case (Mode oc, Size oc, InstructionClass oc) of
        (StLdMode_StLdModeIMM, StLdSize_StLdSizeDW, InsClass_InsClassLd) \<Rightarrow> True
      | _ \<Rightarrow> False)"

definition encodeMemOpcode :: "MemOpcode \<Rightarrow> encode_error + 8 word" where
  "encodeMemOpcode oc =
     (if is_memory_class (InstructionClass oc)
      then Inr (StLdMode_number (Mode oc) OR StLdSize_number (Size oc)
                  OR InsClass_number (InstructionClass oc))
      else Inl UnrecognizedOpcode)"

definition encodeInstruction :: "pb_Instruction \<Rightarrow> encode_error + 64 word list" where
  "encodeInstruction i =
     (case encodeMemOpcode (pb_Opcode i) of
        Inl e \<Rightarrow> Inl e
      | Inr opcode \<Rightarrow>
          (let w = encode_fields opcode (ucast (pb_DstReg i)) (ucast (pb_SrcReg i))
                     (ucast (pb_Offset i)) (pb_Immediate i)
           in case pb_PseudoImmediate i of
                None \<Rightarrow> Inr [w]
              | Some hi \<Rightarrow>
                  (if is_map_load (pb_Opcode i) then Inr [w, push_bit 32 (ucast hi)]
                   else Inl NotMapLoad)))"

subsection \<open>Word-oriented ISA: jumps\<close>

text \<open>
  Modelled from the spec: the instruction message of the word-oriented ISA is missing.
  Its fields are those the test reads: the opcode, the two branch offsets and the
  comparand.
\<close>

record cbpf_Instruction =
  Opcode :: "32 word"
  Jt :: "32 word"
  Jf :: "32 word"
  K :: "32 word"

text \<open>
  Modelled from the spec: the enumerations of the word-oriented ISA are missing.  The
  class sits in bits 0-2 of the opcode, the source-operand flag in bit 3, the operation
  code in bits 4-7; the test reads them with the masks 0x07, 0x08 and 0xf0.  The numbers
  are the kernel's.
\<close>

definition cbpf_InsClassJmp :: "32 word" where "cbpf_InsClassJmp = 0x05"
definition SrcOperand_Immediate :: "32 word" where "SrcOperand_Immediate = 0x00"
definition SrcOperand_RegSrc :: "32 word" where "SrcOperand_RegSrc = 0x08"
definition JmpOperationCode_JmpJA :: "32 word" where "JmpOperationCode_JmpJA = 0x00"
definition JmpOperationCode_JmpJEQ :: "32 word" where "JmpOperationCode_JmpJEQ = 0x10"
definition JmpOperationCode_JmpJGT :: "32 word" where "JmpOperationCode_JmpJGT = 0x20"
definition JmpOperationCode_JmpJGE :: "32 word" where "JmpOperationCode_JmpJGE = 0x30"
definition JmpOperationCode_JmpJSET :: "32 word" where "JmpOperationCode_JmpJSET = 0x40"

text \<open>
  Modelled from the spec: the jump constructors are missing.  The opcode packs the jump
  class, the source-operand flag and the operation code; a register operand is
  represented as a comparand equal to the register's numeric identifier, an immediate
  operand is the comparand.
\<close>

definition newJmpInstruction :: "32 word \<Rightarrow> 32 word \<Rightarrow> 32 word \<Rightarrow> Src \<Rightarrow> cbpf_Instruction" where
  "newJmpInstruction code jmpTrue jmpFalse src =
     (case src of
        RegOperand r \<Rightarrow>
          \<lparr>Opcode = cbpf_InsClassJmp OR SrcOperand_RegSrc OR code,
           Jt = jmpTrue, Jf = jmpFalse, K = r\<rparr>
      | ImmOperand k \<Rightarrow>
          \<lparr>Opcode = cbpf_InsClassJmp OR SrcOperand_Immediate OR code,
           Jt = jmpTrue, Jf = jmpFalse, K = k\<rparr>)"

definition JmpJA :: "32 word \<Rightarrow> cbpf_Instruction" where
  "JmpJA jmpTrue = newJmpInstruction JmpOperationCode_JmpJA jmpTrue 0 (ImmOperand 0)"

definition JmpEQ :: "32 word \<Rightarrow> 32 word \<Rightarrow> Src \<Rightarrow> cbpf_Instruction" where
  "JmpEQ = newJmpInstruction JmpOperationCode_JmpJEQ"

definition JmpGT :: "32 word \<Rightarrow> 32 word \<Rightarrow> Src \<Rightarrow> cbpf_Instruction" where
  "JmpGT = newJmpInstruction JmpOperationCode_JmpJGT"

definition JmpGE :: "32 word \<Rightarrow> 32 word \<Rightarrow> Src \<Rightarrow> cbpf_Instruction" where
  "JmpGE = newJmpInstruction JmpOperationCode_JmpJGE"

definition JmpSET :: "32 word \<Rightarrow> 32 word \<Rightarrow> Src \<Rightarrow> cbpf_Instruction" where
  "JmpSET = newJmpInstruction JmpOperationCode_JmpJSET"

text \<open>
  What the test reads of a built jump: the opcode under the masks of the class, of the
  source-operand flag and of the operation code, and the comparand.
\<close>

definition jmp_fields :: "cbpf_Instruction \<Rightarrow> 32 word \<times> 32 word \<times> 32 word \<times> 32 word" where
  "jmp_fields i = (Opcode i AND 0x07, Opcode i AND 0x08, Opcode i AND 0xf0, K i)"

section \<open>Views of a node used to state the properties\<close>

text \<open>
  Whether a node is one of the two jump structs; the word a node encodes itself to; the
  words of the slice \<open>GenerateBytecode\<close> returns, and those of a successor slot (none for
  an empty slot).
\<close>

definition is_jump :: "'p Operation \<Rightarrow> bool" where
  "is_jump c = (case c of CallOperation _ _ _ \<Rightarrow> False | _ \<Rightarrow> True)"

definition own_word :: "'p Operation \<Rightarrow> 64 word" where
  "own_word c =
     (case c of
        IMMJMPOperation n ins cls dst imm t tg f fsz fg \<Rightarrow> encodeImmediateJmpOperation ins cls dst imm fsz
      | CallOperation n fn nx \<Rightarrow> encodeImmediateJmpOperation JmpCALL InsClassJmp UnusedField fn 0
      | RegJMPOperation n ins cls dst src t tg f fsz fg \<Rightarrow> encodeRegisterJmpOperation ins cls dst src fsz)"

definition GenerateBytecode_words :: "(nat \<Rightarrow> nat \<Rightarrow> nat) \<Rightarrow> 'p Operation \<Rightarrow> panic + 64 word list" where
  "GenerateBytecode_words grow c =
     (case GenerateBytecode grow c of Inl e \<Rightarrow> Inl e | Inr s \<Rightarrow> Inr (elems s))"

definition successor_words :: "(nat \<Rightarrow> nat \<Rightarrow> nat) \<Rightarrow> 'p Operation option \<Rightarrow> panic + 64 word list" where
  "successor_words grow slot =
     (case slot of None \<Rightarrow> Inr [] | Some c \<Rightarrow> GenerateBytecode_words grow c)"

text \<open>The spare capacity of a slice, beyond its length, holds zeros.\<close>

definition zero_spare :: "slice \<Rightarrow> bool" where
  "zero_spare s = (drop (len s) (backing s) = replicate (cap s - len s) 0)"

text \<open>
  One view of the three structs: the successor taken when the jump is taken (the only
  successor of a call), the false successor and the declared size of the false branch
  (a call has neither).
\<close>

definition true_successor :: "'p Operation \<Rightarrow> 'p Operation option" where
  "true_successor c = (case c of CallOperation n fn nx \<Rightarrow> nx | _ \<Rightarrow> TrueBranchNextInstr c)"

definition false_successor :: "'p Operation \<Rightarrow> 'p Operation option" where
  "false_successor c = (case c of CallOperation n fn nx \<Rightarrow> None | _ \<Rightarrow> FalseBranchNextInstr c)"

definition declared_false_size :: "'p Operation \<Rightarrow> 16 word" where
  "declared_false_size c = (case c of CallOperation n fn nx \<Rightarrow> 0 | _ \<Rightarrow> FalseBranchSize c)"

text \<open>The node with its true-successor slot emptied: every other field is kept.\<close>

definition without_true_successor :: "'p Operation \<Rightarrow> 'p Operation" where
  "without_true_successor c =
     (case c of
        IMMJMPOperation n ins cls dst imm t tg f fsz fg \<Rightarrow> IMMJMPOperation n ins cls dst imm None tg f fsz fg
      | CallOperation n fn nx \<Rightarrow> CallOperation n fn None
      | RegJMPOperation n ins cls dst src t tg f fsz fg \<Rightarrow> RegJMPOperation n ins cls dst src None tg f fsz fg)"

text \<open>The nodes met from a node by following true successors only, the node first.\<close>

fun true_chain :: "'p Operation \<Rightarrow> 'p Operation list" where
  "true_chain (IMMJMPOperation n ins cls dst imm t tg f fsz fg) =
     IMMJMPOperation n ins cls dst imm t tg f fsz fg # (case t of None \<Rightarrow> [] | Some to \<Rightarrow> true_chain to)"
| "true_chain (CallOperation n fn nx) =
     CallOperation n fn nx # (case nx of None \<Rightarrow> [] | Some no \<Rightarrow> true_chain no)"
| "true_chain (RegJMPOperation n ins cls dst src t tg f fsz fg) =
     RegJMPOperation n ins cls dst src t tg f fsz fg # (case t of None \<Rightarrow> [] | Some to \<Rightarrow> true_chain to)"

text \<open>
  \<open>GenerateNextInstruction\<close> run \<open>k\<close> times in a row on a tree, each run on the tree and
  the program the run before left.
\<close>

fun expand_times ::
  "('p \<Rightarrow> 'p Operation option \<times> 'p) \<Rightarrow> nat \<Rightarrow> 'p Operation \<Rightarrow> 'p \<Rightarrow> 'p Operation \<times> 'p" where
  "expand_times strategy 0 c prog = (c, prog)"
| "expand_times strategy (Suc k) c prog =
     (let (c', prog') = GenerateNextInstruction strategy c prog
      in expand_times strategy k c' prog')"

text \<open>
  A fully built tree: every successor slot of a jump is populated or has no generator,
  and so on below; the slot of a call is populated (an empty one is filled by the
  program's generator).
\<close>

fun fully_built :: "'p Operation \<Rightarrow> bool" where
  "fully_built (IMMJMPOperation n ins cls dst imm t tg f fsz fg) =
     ((case f of Some fo \<Rightarrow> fully_built fo | None \<Rightarrow> (case fg of None \<Rightarrow> True | Some g \<Rightarrow> False))
      \<and> (case t of Some to \<Rightarrow> fully_built to | None \<Rightarrow> (case tg of None \<Rightarrow> True | Some g \<Rightarrow> False)))"
| "fully_built (CallOperation n fn nx) =
     (case nx of Some no \<Rightarrow> fully_built no | None \<Rightarrow> False)"
| "fully_built (RegJMPOperation n ins cls dst src t tg f fsz fg) =
     ((case f of Some fo \<Rightarrow> fully_built fo | None \<Rightarrow> (case fg of None \<Rightarrow> True | Some g \<Rightarrow> False))
      \<and> (case t of Some to \<Rightarrow> fully_built to | None \<Rightarrow> (case tg of None \<Rightarrow> True | Some g \<Rightarrow> False)))"

text \<open>
  \<open>extends c c'\<close>: the tree \<open>c'\<close> is the tree \<open>c\<close> with some of its empty slots filled.  Every
  node of \<open>c\<close> is in \<open>c'\<close> at the same place with the same fields and generators; a
  populated slot is populated by the extension of the node it held, and the declared size
  of a populated false branch is kept.
\<close>

fun extends :: "'p Operation \<Rightarrow> 'p Operation \<Rightarrow> bool" where
  "extends (IMMJMPOperation n ins cls dst imm t tg f fsz fg) c' =
     (case c' of
        IMMJMPOperation n' ins' cls' dst' imm' t' tg' f' fsz' fg' \<Rightarrow>
          n' = n \<and> ins' = ins \<and> cls' = cls \<and> dst' = dst \<and> imm' = imm \<and> tg' = tg \<and> fg' = fg
          \<and> (case f of
                None \<Rightarrow> True
              | Some fo \<Rightarrow> fsz' = fsz \<and> (case f' of None \<Rightarrow> False | Some fo' \<Rightarrow> extends fo fo'))
          \<and> (case t of
                None \<Rightarrow> True
              | Some to \<Rightarrow> (case t' of None \<Rightarrow> False | Some to' \<Rightarrow> extends to to'))
      | _ \<Rightarrow> False)"
| "extends (CallOperation n fn nx) c' =
     (case c' of
        CallOperation n' fn' nx' \<Rightarrow>
          n' = n \<and> fn' = fn
          \<and> (case nx of
                None \<Rightarrow> True
              | Some no \<Rightarrow> (case nx' of None \<Rightarrow> False | Some no' \<Rightarrow> extends no no'))
      | _ \<Rightarrow> False)"
| "extends (RegJMPOperation n ins cls dst src t tg f fsz fg) c' =
     (case c' of
        RegJMPOperation n' ins' cls' dst' src' t' tg' f' fsz' fg' \<Rightarrow>
          n' = n \<and> ins' = ins \<and> cls' = cls \<and> dst' = dst \<and> src' = src \<and> tg' = tg \<and> fg' = fg
          \<and> (case f of
                None \<Rightarrow> True
              | Some fo \<Rightarrow> fsz' = fsz \<and> (case f' of None \<Rightarrow> False | Some fo' \<Rightarrow> extends fo fo'))
          \<and> (case t of
                None \<Rightarrow> True
              | Some to \<Rightarrow> (case t' of None \<Rightarrow> False | Some to' \<Rightarrow> extends to to'))
      | _ \<Rightarrow> False)"

text \<open>
  The guard once its false successor is generated, without its true successor: the false
  successor is the exit, the declared size 1.
\<close>

definition expanded_guard ::
  "('p \<Rightarrow> 'p Operation option \<times> 'p) \<Rightarrow> 8 word \<Rightarrow> 8 word \<Rightarrow> 8 word \<Rightarrow> 32 word \<Rightarrow> 'p Operation" where
  "expanded_guard strategy ins insClass dstReg imm =
     IMMJMPOperation 0 ins insClass dstReg imm
       None (Some strategy)
       (Some ExitOperation) 1 (Some (\<lambda>prog. ((Some ExitOperation, 1), prog)))"

subsection \<open>Concrete trees\<close>

text \<open>
  A register jump (JEQ r1, r7) whose two branches are exits; an immediate jump
  (JEQ r1, 7) whose false successor is that jump, declared with 2, 4 and 5 words.
\<close>

definition guard_example :: "unit Operation" where
  "guard_example =
     RegJMPOperation 0 0x10 0x05 1 7 (Some ExitOperation) None (Some ExitOperation) 1 None"

definition truncating_example :: "unit Operation" where
  "truncating_example =
     IMMJMPOperation 0 0x10 0x05 1 7 (Some ExitOperation) None (Some guard_example) 2 None"

definition padded_example :: "unit Operation" where
  "padded_example =
     IMMJMPOperation 0 0x10 0x05 1 7 None None (Some guard_example) 4 None"

definition oversized_example :: "unit Operation" where
  "oversized_example =
     IMMJMPOperation 0 0x10 0x05 1 7 None None (Some guard_example) 5 None"

text \<open>
  Two generators: one returns a call to function 7 each time and counts its calls in the
  program; the other returns an exit.  The guard JEQ r1, 7 expanded twice with the first.
\<close>

definition call_strategy :: "nat \<Rightarrow> nat Operation option \<times> nat" where
  "call_strategy prog = (Some (CallOperation 0 7 None), Suc prog)"

definition exit_strategy :: "unit \<Rightarrow> unit Operation option \<times> unit" where
  "exit_strategy prog = (Some ExitOperation, prog)"

definition expanded_example :: "nat Operation" where
  "expanded_example =
     fst (expand_times call_strategy (Suc (Suc 0)) (GuardJump call_strategy 0x10 0x05 1 7) 0)"

section \<open>Slices and the words of a node\<close>

lemma wf_slice_literal: "wf_slice (slice_literal w)"
  by (simp add: wf_slice_def slice_literal_def cap_def)

lemma elems_slice_literal: "elems (slice_literal w) = [w]"
  by (simp add: elems_def slice_literal_def)

lemma length_elems: "wf_slice s \<Longrightarrow> length (elems s) = len s"
  by (simp add: wf_slice_def elems_def cap_def)

lemma wf_append_slice: "wf_slice s \<Longrightarrow> wf_slice t \<Longrightarrow> wf_slice (append_slice grow s t)"
  by (auto simp: wf_slice_def append_slice_def cap_def elems_def Let_def)

lemma elems_append_slice:
  "wf_slice s \<Longrightarrow> wf_slice t \<Longrightarrow> elems (append_slice grow s t) = elems s @ elems t"
  by (auto simp: wf_slice_def append_slice_def cap_def elems_def Let_def)

lemma slice_to_Inr:
  "slice_to s n = Inr r \<Longrightarrow> 0 \<le> n \<and> n \<le> int (cap s) \<and> r = s\<lparr>len := nat n\<rparr>"
  by (auto simp: slice_to_def split: if_splits)

lemma slice_to_wf: "slice_to s n = Inr r \<Longrightarrow> wf_slice r"
  by (auto simp: slice_to_def wf_slice_def cap_def split: if_splits)

lemma slice_to_elems: "slice_to s n = Inr r \<Longrightarrow> elems r = take (nat n) (backing s)"
  by (auto simp: slice_to_def elems_def split: if_splits)

lemma take_backing_elems: "k \<le> len s \<Longrightarrow> take k (backing s) = take k (elems s)"
  by (simp add: elems_def min_def)

lemma GenerateBytecode_wf: "GenerateBytecode grow c = Inr s \<Longrightarrow> wf_slice s"
proof (induction grow c arbitrary: s rule: GenerateBytecode.induct)
  case (1 grow n ins cls dst imm t tg f fsz fg)
  then show ?case
    by (auto simp: Let_def wf_slice_literal wf_append_slice slice_to_wf split: option.splits sum.splits)
next
  case (2 grow n fn nx)
  then show ?case
    by (auto simp: Let_def wf_slice_literal wf_append_slice split: option.splits sum.splits)
next
  case (3 grow n ins cls dst src t tg f fsz fg)
  then show ?case
    by (auto simp: Let_def wf_slice_literal wf_append_slice slice_to_wf split: option.splits sum.splits)
qed

lemma zero_spare_literal: "zero_spare (slice_literal w)"
  by (simp add: zero_spare_def slice_literal_def cap_def)

lemma zero_spare_append:
  assumes "wf_slice s" and "wf_slice t" and "zero_spare s"
  shows "zero_spare (append_slice grow s t)"
proof (cases "len s + len t \<le> cap s")
  case True
  have ls: "length (take (len s) (backing s)) = len s" and lt: "length (elems t) = len t"
    using assms(1,2) by (simp_all add: wf_slice_def cap_def elems_def)
  have "drop (len s + len t) (backing s) = drop (len t) (drop (len s) (backing s))"
    by (simp add: add.commute)
  also have "\<dots> = replicate (cap s - (len s + len t)) 0"
    using assms(3) by (simp add: zero_spare_def)
  finally have d: "drop (len s + len t) (backing s) = replicate (cap s - (len s + len t)) 0" .
  have c: "cap (append_slice grow s t) = cap s"
    using True ls lt by (simp add: append_slice_def cap_def Let_def)
  have "drop (len s + len t) (backing (append_slice grow s t)) = drop (len s + len t) (backing s)"
    using True ls lt by (simp add: append_slice_def Let_def)
  with d c True show ?thesis
    by (simp add: zero_spare_def append_slice_def Let_def)
next
  case False
  have ls: "length (elems s) = len s" and lt: "length (elems t) = len t"
    using assms(1,2) by (simp_all add: length_elems)
  from False ls lt show ?thesis
    by (simp add: zero_spare_def append_slice_def cap_def Let_def)
qed

lemma GenerateBytecode_zero_spare: "GenerateBytecode grow c = Inr s \<Longrightarrow> zero_spare s"
proof (cases c)
  case (IMMJMPOperation n ins cls dst imm t tg f fsz fg)
  assume "GenerateBytecode grow c = Inr s"
  with IMMJMPOperation show ?thesis
    by (auto simp: Let_def zero_spare_literal zero_spare_append wf_slice_literal wf_append_slice
        slice_to_wf GenerateBytecode_wf split: option.splits sum.splits)
next
  case (CallOperation n fn nx)
  assume "GenerateBytecode grow c = Inr s"
  with CallOperation show ?thesis
    by (auto simp: Let_def zero_spare_literal zero_spare_append wf_slice_literal wf_append_slice
        GenerateBytecode_wf split: option.splits sum.splits)
next
  case (RegJMPOperation n ins cls dst src t tg f fsz fg)
  assume "GenerateBytecode grow c = Inr s"
  with RegJMPOperation show ?thesis
    by (auto simp: Let_def zero_spare_literal zero_spare_append wf_slice_literal wf_append_slice
        slice_to_wf GenerateBytecode_wf split: option.splits sum.splits)
qed

lemma take_backing_padded:
  assumes "wf_slice s" and "zero_spare s" and "k \<le> cap s"
  shows "take k (backing s) = take k (elems s) @ replicate (k - len s) 0"
proof -
  have "backing s = elems s @ replicate (cap s - len s) 0"
    using assms(2) by (simp add: zero_spare_def elems_def)
       (metis append_take_drop_id)
  then have "take k (backing s) = take k (elems s @ replicate (cap s - len s) 0)" by simp
  also have "\<dots> = take k (elems s) @ replicate (k - len s) 0"
    using assms(1,3) by (simp add: length_elems min_def)
  finally show ?thesis .
qed

lemma jump_words:
  assumes "is_jump c" and "FalseBranchNextInstr c = Some f" and "GenerateBytecode grow f = Inr fb"
    and "successor_words grow (TrueBranchNextInstr c) = Inr tw"
  shows "GenerateBytecode_words grow c =
           (if sint (FalseBranchSize c) < 0 \<or> int (cap fb) < sint (FalseBranchSize c)
            then Inl SliceBoundsOutOfRange
            else Inr (own_word c # take (nat (sint (FalseBranchSize c))) (backing fb) @ tw))"
proof (cases "slice_to fb (sint (FalseBranchSize c))")
  case (Inl e)
  then have bad: "sint (FalseBranchSize c) < 0 \<or> int (cap fb) < sint (FalseBranchSize c)"
    by (auto simp: slice_to_def split: if_splits)
  have "e = SliceBoundsOutOfRange" by (cases e) simp
  with Inl bad assms show ?thesis
    by (cases c) (auto simp: is_jump_def GenerateBytecode_words_def Let_def)
next
  case (Inr r)
  note r = slice_to_Inr [OF Inr] slice_to_wf [OF Inr] slice_to_elems [OF Inr]
  have ok: "\<not> (sint (FalseBranchSize c) < 0 \<or> int (cap fb) < sint (FalseBranchSize c))"
    using r(1) by auto
  have step: "elems (append_slice grow (slice_literal w) r) = w # take (nat (sint (FalseBranchSize c))) (backing fb)"
    and wf: "wf_slice (append_slice grow (slice_literal w) r)" for w
    using r by (simp_all add: elems_append_slice wf_slice_literal elems_slice_literal wf_append_slice)
  show ?thesis
  proof (cases "TrueBranchNextInstr c")
    case None
    with assms Inr ok step show ?thesis
      by (cases c) (auto simp: is_jump_def GenerateBytecode_words_def successor_words_def own_word_def Let_def)
  next
    case (Some to)
    with assms obtain tb where tb: "GenerateBytecode grow to = Inr tb" "tw = elems tb"
      by (auto simp: successor_words_def GenerateBytecode_words_def split: sum.splits)
    have "wf_slice tb" using tb(1) by (rule GenerateBytecode_wf)
    with Some tb assms Inr ok step wf show ?thesis
      by (cases c) (auto simp: is_jump_def GenerateBytecode_words_def own_word_def Let_def elems_append_slice)
  qed
qed


lemma guard_example_slice:
  "GenerateBytecode gc_growth guard_example = Inr \<lparr>backing = [0x1711d, 0x95, 0x95, 0], len = 3\<rparr>"
  by code_simp

section \<open>Flattening a two-way jump\<close>

text \<open>
  C1.  A two-way jump (immediate or register) with a false successor returns its own
  encoded word, then the first \<open>FalseBranchSize\<close> words of what the false successor
  returns (the rest of that output is dropped), then all the words of the true successor
  when there is one.  The declared size is taken within the length of the false
  successor's output, and the successors' own calls return.
\<close>

theorem GenerateBytecode_two_way_jump:
  assumes "is_jump c" and "FalseBranchNextInstr c = Some f"
    and "GenerateBytecode_words grow f = Inr fw"
    and "0 \<le> sint (FalseBranchSize c)" and "nat (sint (FalseBranchSize c)) \<le> length fw"
    and "successor_words grow (TrueBranchNextInstr c) = Inr tw"
  shows "GenerateBytecode_words grow c =
           Inr (own_word c # take (nat (sint (FalseBranchSize c))) fw @ tw)"
proof -
  from assms(3) obtain fb where fb: "GenerateBytecode grow f = Inr fb" "fw = elems fb"
    by (auto simp: GenerateBytecode_words_def split: sum.splits)
  have wf: "wf_slice fb" using fb(1) by (rule GenerateBytecode_wf)
  then have l: "length fw = len fb" "len fb \<le> cap fb"
    using fb(2) by (simp_all add: length_elems wf_slice_def)
  with assms(4,5) have ok: "\<not> (sint (FalseBranchSize c) < 0 \<or> int (cap fb) < sint (FalseBranchSize c))"
    by linarith
  have "take (nat (sint (FalseBranchSize c))) (backing fb) = take (nat (sint (FalseBranchSize c))) fw"
    using assms(5) l fb(2) by (simp add: take_backing_elems)
  with jump_words [OF assms(1,2) fb(1) assms(6)] ok show ?thesis by simp
qed

text \<open>
  The false successor is itself a two-way jump of three words; declared with two words,
  only its first two words are kept, and the exit of the true branch follows.
\<close>

theorem GenerateBytecode_two_way_jump_witness:
  "is_jump truncating_example \<and> FalseBranchNextInstr truncating_example = Some guard_example
   \<and> GenerateBytecode_words gc_growth guard_example = Inr [0x1711d, 0x95, 0x95]
   \<and> sint (FalseBranchSize truncating_example) = 2
   \<and> successor_words gc_growth (TrueBranchNextInstr truncating_example) = Inr [0x95]
   \<and> GenerateBytecode_words gc_growth truncating_example = Inr [0x700020115, 0x1711d, 0x95, 0x95]"
proof -
  have a: "is_jump truncating_example" by code_simp
  have b: "FalseBranchNextInstr truncating_example = Some guard_example"
    by (simp add: truncating_example_def)
  have c: "GenerateBytecode_words gc_growth guard_example = Inr [0x1711d, 0x95, 0x95]" by code_simp
  have d: "sint (FalseBranchSize truncating_example) = 2" by (simp add: truncating_example_def)
  have e: "successor_words gc_growth (TrueBranchNextInstr truncating_example) = Inr [0x95]"
    by code_simp
  have o: "own_word truncating_example = 0x700020115" by code_simp
  from GenerateBytecode_two_way_jump [OF a b c _ _ e] d o a b c e show ?thesis by simp
qed

section \<open>The bounds of the false-branch slice\<close>

text \<open>
  C10, as stated: a declared size above the number of words of the false successor makes
  the call panic.  It does not always: the slice expression is bounded by the capacity.
  The false successor below returns three words in an array of four; declared with four
  words, the call returns, and the fourth word is the zero of the spare capacity.
\<close>

theorem padded_false_slice_counterexample:
  "FalseBranchNextInstr padded_example = Some guard_example
   \<and> GenerateBytecode_words gc_growth guard_example = Inr [0x1711d, 0x95, 0x95]
   \<and> sint (FalseBranchSize padded_example) = 4
   \<and> GenerateBytecode_words gc_growth padded_example = Inr [0x700040115, 0x1711d, 0x95, 0x95, 0]"
  by code_simp

text \<open>
  C10, amended.  For a two-way jump with a false successor, when the successors' own
  calls return: the call panics exactly when the declared size is negative or above the
  capacity of the slice the false successor returns; the length of that slice is within
  its capacity, so a size within the length never panics; and a size within the capacity
  yields the node's word, the first words of the false successor up to that size, a zero
  for each word the size is above the length, and the words of the true successor.
\<close>

theorem GenerateBytecode_false_slice_bounds:
  assumes "is_jump c" and "FalseBranchNextInstr c = Some f"
    and "GenerateBytecode grow f = Inr fb"
    and "successor_words grow (TrueBranchNextInstr c) = Inr tw"
  shows "((GenerateBytecode grow c = Inl SliceBoundsOutOfRange)
            = (sint (FalseBranchSize c) < 0 \<or> int (cap fb) < sint (FalseBranchSize c)))
       \<and> len fb \<le> cap fb
       \<and> (0 \<le> sint (FalseBranchSize c) \<and> sint (FalseBranchSize c) \<le> int (cap fb) \<longrightarrow>
            GenerateBytecode_words grow c =
              Inr (own_word c # take (nat (sint (FalseBranchSize c))) (elems fb)
                     @ replicate (nat (sint (FalseBranchSize c)) - len fb) 0 @ tw))"
proof -
  have wf: "wf_slice fb" using assms(3) by (rule GenerateBytecode_wf)
  then have l: "len fb \<le> cap fb" by (simp add: wf_slice_def)
  have z: "zero_spare fb" using assms(3) by (rule GenerateBytecode_zero_spare)
  have p: "(GenerateBytecode grow c = Inl SliceBoundsOutOfRange)
      = (GenerateBytecode_words grow c = Inl SliceBoundsOutOfRange)"
    by (simp add: GenerateBytecode_words_def split: sum.splits)
  have t: "take (nat (sint (FalseBranchSize c))) (backing fb)
      = take (nat (sint (FalseBranchSize c))) (elems fb)
          @ replicate (nat (sint (FalseBranchSize c)) - len fb) 0"
    if "0 \<le> sint (FalseBranchSize c)" and "sint (FalseBranchSize c) \<le> int (cap fb)"
    using that by (intro take_backing_padded [OF wf z]) linarith
  show ?thesis
    using jump_words [OF assms] l p t by (simp split: if_splits)
qed

text \<open>
  Over a false successor of three words in an array of four: declared with four words the
  call returns with one zero of padding; declared with five it panics.
\<close>

theorem GenerateBytecode_false_slice_bounds_witness:
  "is_jump padded_example \<and> FalseBranchNextInstr padded_example = Some guard_example
   \<and> is_jump oversized_example \<and> FalseBranchNextInstr oversized_example = Some guard_example
   \<and> GenerateBytecode gc_growth guard_example = Inr \<lparr>backing = [0x1711d, 0x95, 0x95, 0], len = 3\<rparr>
   \<and> successor_words gc_growth (TrueBranchNextInstr padded_example) = Inr []
   \<and> successor_words gc_growth (TrueBranchNextInstr oversized_example) = Inr []
   \<and> sint (FalseBranchSize padded_example) = 4
   \<and> sint (FalseBranchSize oversized_example) = 5
   \<and> GenerateBytecode_words gc_growth padded_example = Inr [0x700040115, 0x1711d, 0x95, 0x95, 0]
   \<and> GenerateBytecode gc_growth oversized_example = Inl SliceBoundsOutOfRange"
proof -
  have a: "is_jump padded_example" "is_jump oversized_example" by code_simp+
  have b: "FalseBranchNextInstr padded_example = Some guard_example"
    "FalseBranchNextInstr oversized_example = Some guard_example"
    by (simp_all add: padded_example_def oversized_example_def)
  have d: "sint (FalseBranchSize padded_example) = 4" "sint (FalseBranchSize oversized_example) = 5"
    by (simp_all add: padded_example_def oversized_example_def)
  have e: "successor_words gc_growth (TrueBranchNextInstr padded_example) = Inr []"
    "successor_words gc_growth (TrueBranchNextInstr oversized_example) = Inr []"
    by (simp_all add: padded_example_def oversized_example_def successor_words_def)
  have o: "own_word padded_example = 0x700040115" by code_simp
  from GenerateBytecode_false_slice_bounds [OF a(1) b(1) guard_example_slice e(1)] d(1) o
  have w: "GenerateBytecode_words gc_growth padded_example = Inr [0x700040115, 0x1711d, 0x95, 0x95, 0]"
    by (simp add: cap_def elems_def)
  from GenerateBytecode_false_slice_bounds [OF a(2) b(2) guard_example_slice e(2)] d(2)
  have x: "GenerateBytecode gc_growth oversized_example = Inl SliceBoundsOutOfRange"
    by (simp add: cap_def)
  from a b d e w x guard_example_slice show ?thesis by simp
qed

section \<open>Numbering\<close>

text \<open>
  C4.  \<open>NumerateInstruction\<close> at \<open>start\<close> records \<open>start\<close> in the node, numbers a false
  successor from \<open>start + 1\<close> and a true successor from \<open>start + 1 +\<close> the declared size of
  the false branch, keeps the declared size, and returns 1 plus the declared size plus
  the count of the true successor when there is one; a call without successor and an
  exit return 1.  The sums are those of the machine: 32 bits for positions, 64 bits for
  counts, the 16-bit size sign-extended.
\<close>

theorem NumerateInstruction_positions_and_count:
  "instructionNumber (fst (NumerateInstruction c start)) = start
   \<and> false_successor (fst (NumerateInstruction c start))
       = map_option (\<lambda>x. fst (NumerateInstruction x (start + 1))) (false_successor c)
   \<and> true_successor (fst (NumerateInstruction c start))
       = map_option (\<lambda>x. fst (NumerateInstruction x (start + 1 + scast (declared_false_size c))))
           (true_successor c)
   \<and> declared_false_size (fst (NumerateInstruction c start)) = declared_false_size c
   \<and> snd (NumerateInstruction c start)
       = (case true_successor c of
            Some y \<Rightarrow> 1 + scast (declared_false_size c)
                        + snd (NumerateInstruction y (start + 1 + scast (declared_false_size c)))
          | None \<Rightarrow> 1 + scast (declared_false_size c))
   \<and> snd (NumerateInstruction (CallOperation n fn None) start) = 1
   \<and> snd (NumerateInstruction ExitOperation start) = 1"
  by (cases c)
     (auto simp: true_successor_def false_successor_def declared_false_size_def ExitOperation_def
         Let_def split_beta split: option.splits)

lemma Numerate_again:
  "NumerateInstruction (fst (NumerateInstruction c s')) s = NumerateInstruction c s"
proof (induction c arbitrary: s s')
  case (IMMJMPOperation n ins cls dst imm t tg f fsz fg)
  show ?case
  proof (cases t)
    case None
    then show ?thesis using IMMJMPOperation.IH(3)
      by (cases f) (simp_all add: Let_def)
  next
    case (Some to)
    then show ?thesis using IMMJMPOperation.IH(1,3)
      by (cases f) (simp_all add: Let_def split_beta)
  qed
next
  case (CallOperation n fn nx)
  then show ?case by (cases nx) (simp_all add: Let_def split_beta)
next
  case (RegJMPOperation n ins cls dst src t tg f fsz fg)
  show ?case
  proof (cases t)
    case None
    then show ?thesis using RegJMPOperation.IH(3)
      by (cases f) (simp_all add: Let_def)
  next
    case (Some to)
    then show ?thesis using RegJMPOperation.IH(1,3)
      by (cases f) (simp_all add: Let_def split_beta)
  qed
qed

text \<open>
  C5.  Numbering a tree that was numbered from \<open>start\<close> once more from \<open>start\<close> returns the
  same tree, so every node keeps its number, and the same count.
\<close>

theorem NumerateInstruction_idempotent:
  "fst (NumerateInstruction (fst (NumerateInstruction c start)) start) = fst (NumerateInstruction c start)
   \<and> snd (NumerateInstruction (fst (NumerateInstruction c start)) start) = snd (NumerateInstruction c start)"
  by (simp add: Numerate_again)

section \<open>Attaching a node\<close>

lemma SetNext_chain:
  "true_chain (SetNextInstruction c (Some node)) =
     map (\<lambda>x. SetNextInstruction x (Some node)) (true_chain c) @ true_chain node"
  by (induction c) (auto split: option.splits)

lemma without_true_SetNext:
  "without_true_successor (SetNextInstruction c next) = without_true_successor c"
  by (cases c) (auto simp: without_true_successor_def split: option.splits)

lemma true_chain_not_Nil: "true_chain c \<noteq> []"
  by (cases c) simp_all

lemma last_true_chain: "true_successor (last (true_chain c)) = None"
  by (induction c) (auto simp: true_successor_def true_chain_not_Nil split: option.splits)

lemma butlast_true_chain: "x \<in> set (butlast (true_chain c)) \<Longrightarrow> true_successor x \<noteq> None"
  by (induction c) (auto simp: true_successor_def true_chain_not_Nil split: option.splits if_splits)

text \<open>
  C7.  The chain of true successors of a tree ends at its first node with an empty
  true-successor slot.  After \<open>SetNextInstruction\<close> the chain is the old chain followed by
  the chain of the attached node: the attached node sits in that slot, and every node of
  the old chain is what it was but for its true successor, so its false successor, its
  declared size and its other fields are unchanged.
\<close>

theorem SetNextInstruction_attaches_at_end_of_true_chain:
  "map without_true_successor
       (take (length (true_chain c)) (true_chain (SetNextInstruction c (Some node))))
     = map without_true_successor (true_chain c)
   \<and> drop (length (true_chain c)) (true_chain (SetNextInstruction c (Some node))) = true_chain node
   \<and> true_successor (last (true_chain c)) = None
   \<and> list_all (\<lambda>x. true_successor x \<noteq> None) (butlast (true_chain c))"
  using butlast_true_chain [of _ c]
  by (auto simp: SetNext_chain without_true_SetNext last_true_chain list_all_iff comp_def)

section \<open>Expanding the tree\<close>

lemma GNI_extends: "extends c (fst (GenerateNextInstruction strategy c prog))"
proof (induction c arbitrary: prog)
  case (IMMJMPOperation n ins cls dst imm t tg f fsz fg)
  then show ?case
    by (auto simp: Let_def split_beta split: option.splits)
next
  case (CallOperation n fn nx)
  then show ?case by (auto simp: Let_def split_beta split: option.splits)
next
  case (RegJMPOperation n ins cls dst src t tg f fsz fg)
  then show ?case
    by (auto simp: Let_def split_beta split: option.splits)
qed

lemma GNI_fully_built: "fully_built c \<Longrightarrow> GenerateNextInstruction strategy c prog = (c, prog)"
proof (induction c arbitrary: prog)
  case (IMMJMPOperation n ins cls dst imm t tg f fsz fg)
  then show ?case
    by (auto simp: Let_def split: option.splits)
next
  case (CallOperation n fn nx)
  then show ?case by (auto simp: Let_def split: option.splits)
next
  case (RegJMPOperation n ins cls dst src t tg f fsz fg)
  then show ?case
    by (auto simp: Let_def split: option.splits)
qed

text \<open>
  C6.  \<open>GenerateNextInstruction\<close> keeps what is there: the tree it returns extends the
  tree it was given, so a populated slot still holds the node it held (expanded in turn)
  and no generator replaced it.  On a fully built tree it changes neither the tree nor
  the program, and running it twice gives what running it once gives.
\<close>

theorem GenerateNextInstruction_keeps_populated_slots:
  "extends c (fst (GenerateNextInstruction strategy c prog))
   \<and> (fully_built c \<longrightarrow>
        GenerateNextInstruction strategy c prog = (c, prog)
        \<and> expand_times strategy (Suc (Suc 0)) c prog = expand_times strategy (Suc 0) c prog)"
  by (simp add: GNI_extends GNI_fully_built)

theorem GenerateNextInstruction_keeps_populated_slots_witness:
  "fully_built guard_example
   \<and> extends guard_example (fst (GenerateNextInstruction exit_strategy guard_example ()))
   \<and> GenerateNextInstruction exit_strategy guard_example () = (guard_example, ())
   \<and> expand_times exit_strategy (Suc (Suc 0)) guard_example ()
       = expand_times exit_strategy (Suc 0) guard_example ()"
proof -
  have a: "fully_built guard_example" by code_simp
  note th = GenerateNextInstruction_keeps_populated_slots [of guard_example exit_strategy "()"]
  from th have e: "extends guard_example (fst (GenerateNextInstruction exit_strategy guard_example ()))"
    by (rule conjunct1)
  from th a have r: "GenerateNextInstruction exit_strategy guard_example () = (guard_example, ())
      \<and> expand_times exit_strategy (Suc (Suc 0)) guard_example ()
          = expand_times exit_strategy (Suc 0) guard_example ()"
    by blast
  from a e r show ?thesis by blast
qed

section \<open>Guards and exits\<close>

lemma GNI_Exit: "GenerateNextInstruction strategy ExitOperation prog = (ExitOperation, prog)"
  by (simp add: ExitOperation_def)

lemma GNI_GuardJump:
  "without_true_successor (fst (GenerateNextInstruction strategy (GuardJump strategy ins cls dst imm) prog))
     = expanded_guard strategy ins cls dst imm"
  by (simp add: GuardJump_def expanded_guard_def without_true_successor_def Let_def split_beta
      split: option.splits)

lemma GNI_expanded_guard:
  assumes "without_true_successor c = expanded_guard s ins cls dst imm"
  shows "without_true_successor (fst (GenerateNextInstruction strategy c prog))
           = expanded_guard s ins cls dst imm"
  using assms
  by (cases c)
     (auto simp: expanded_guard_def without_true_successor_def GNI_Exit Let_def split_beta
       split: option.splits)

lemma expand_times_expanded_guard:
  "without_true_successor c = expanded_guard s ins cls dst imm \<Longrightarrow>
   without_true_successor (fst (expand_times strategy k c prog)) = expanded_guard s ins cls dst imm"
proof (induction k arbitrary: c prog)
  case 0
  then show ?case by simp
next
  case (Suc k)
  from Suc.IH [OF GNI_expanded_guard [OF Suc.prems]] show ?case
    by (simp add: split_beta)
qed

lemma Exit_slice:
  "GenerateBytecode grow (ExitOperation :: 'p Operation)
     = Inr (slice_literal (own_word (ExitOperation :: 'p Operation)))"
  by (simp add: ExitOperation_def own_word_def)

text \<open>
  C3.  After one or more expansions of a guard built by \<open>GuardJump\<close>, its false successor
  is the exit without successors and its declared size is 1, whatever the generator put
  in the true branch; its bytecode is then its own word, the one word of the exit, and
  the words of the true branch.
\<close>

theorem GuardJump_false_branch_is_one_word:
  assumes "(g :: 'p Operation)
             = fst (expand_times strategy (Suc k) (GuardJump strategy ins cls dst imm) prog)"
  shows "without_true_successor g = expanded_guard strategy ins cls dst imm
       \<and> FalseBranchNextInstr g = Some ExitOperation \<and> FalseBranchSize g = 1
       \<and> (successor_words grow (TrueBranchNextInstr g) = Inr tw \<longrightarrow>
            GenerateBytecode_words grow g = Inr (own_word g # own_word (ExitOperation :: 'p Operation) # tw))"
proof -
  have w: "without_true_successor g = expanded_guard strategy ins cls dst imm"
    using expand_times_expanded_guard [OF GNI_GuardJump] assms by (simp add: split_beta)
  then have j: "is_jump g" and f: "FalseBranchNextInstr g = Some ExitOperation"
    and s: "FalseBranchSize g = 1"
    by (cases g; simp add: is_jump_def expanded_guard_def without_true_successor_def)+
  show ?thesis
  proof (intro conjI impI)
    assume t: "successor_words grow (TrueBranchNextInstr g) = Inr tw"
    from jump_words [OF j f Exit_slice t] s
    show "GenerateBytecode_words grow g = Inr (own_word g # own_word (ExitOperation :: 'p Operation) # tw)"
      by (simp add: cap_def slice_literal_def)
  qed (rule w, rule f, rule s)
qed

theorem GuardJump_false_branch_is_one_word_witness:
  "expanded_example = fst (expand_times call_strategy (Suc (Suc 0)) (GuardJump call_strategy 0x10 0x05 1 7) 0)
   \<and> successor_words gc_growth (TrueBranchNextInstr expanded_example) = Inr [0x700000085, 0x700000085]
   \<and> FalseBranchNextInstr expanded_example = Some ExitOperation
   \<and> FalseBranchSize expanded_example = 1
   \<and> GenerateBytecode_words gc_growth expanded_example = Inr [0x700010115, 0x95, 0x700000085, 0x700000085]"
proof -
  have t: "successor_words gc_growth (TrueBranchNextInstr expanded_example) = Inr [0x700000085, 0x700000085]"
    by code_simp
  have o: "own_word expanded_example = 0x700010115" by code_simp
  have e: "own_word (ExitOperation :: nat Operation) = 0x95" by code_simp
  note th = GuardJump_false_branch_is_one_word [OF expanded_example_def,
      where grow = gc_growth and tw = "[0x700000085, 0x700000085]"]
  from th have f: "FalseBranchNextInstr expanded_example = Some ExitOperation"
    and s: "FalseBranchSize expanded_example = 1"
    by blast+
  from th t have "GenerateBytecode_words gc_growth expanded_example
      = Inr (own_word expanded_example # own_word (ExitOperation :: nat Operation) # [0x700000085, 0x700000085])"
    by blast
  with o e have w: "GenerateBytecode_words gc_growth expanded_example
      = Inr [0x700010115, 0x95, 0x700000085, 0x700000085]"
    by simp
  from expanded_example_def t f s w show ?thesis by blast
qed

text \<open>
  C9, as stated: terminal attachment never gives an exit a successor.  It does:
  \<open>SetNextInstruction\<close> on an exit, or on a chain of true successors that ends in an exit,
  stores the node in the exit's empty true-successor slot, and the bytecode of the exit
  then has two words.
\<close>

theorem Exit_gets_successor_counterexample:
  "true_successor (SetNextInstruction (ExitOperation :: unit Operation) (Some (CallOperation 0 7 None)))
     = Some (CallOperation 0 7 None)
   \<and> GenerateBytecode_words gc_growth
        (SetNextInstruction (ExitOperation :: unit Operation) (Some (CallOperation 0 7 None)))
       = Inr [0x95, 0x700000085]
   \<and> SetNextInstruction (CallOperation 0 7 (Some (ExitOperation :: unit Operation))) (Some (CallOperation 0 8 None))
       = CallOperation 0 7 (Some (IMMJMPOperation 0 JmpExit InsClassJmp 0 UnusedField
            (Some (CallOperation 0 8 None)) None None 0 None))"
  by code_simp

text \<open>
  C9, amended.  An exit without successors encodes to exactly one word, and expansion
  leaves it as it is (it has no generator); \<open>SetNextInstruction\<close> does not check for an
  exit and attaches the node as its true successor.
\<close>

theorem Exit_operation_terminal:
  "GenerateBytecode_words grow (ExitOperation :: 'p Operation) = Inr [own_word (ExitOperation :: 'p Operation)]
   \<and> GenerateNextInstruction strategy (ExitOperation :: 'p Operation) prog = (ExitOperation, prog)
   \<and> true_successor (SetNextInstruction (ExitOperation :: 'p Operation) (Some node)) = Some node"
proof (intro conjI)
  show "GenerateBytecode_words grow (ExitOperation :: 'p Operation) = Inr [own_word (ExitOperation :: 'p Operation)]"
    by (simp add: Exit_slice GenerateBytecode_words_def elems_slice_literal)
  show "GenerateNextInstruction strategy (ExitOperation :: 'p Operation) prog = (ExitOperation, prog)"
    by (rule GNI_Exit)
  show "true_successor (SetNextInstruction (ExitOperation :: 'p Operation) (Some node)) = Some node"
    by (simp add: ExitOperation_def true_successor_def)
qed

section \<open>Encodings of the two ISAs\<close>

text \<open>The modelled encoder yields every word the table of the memory test expects.\<close>

lemma memory_test_table:
  "encodeInstruction (StDW Reg_R9 (RegOperand Reg_R0) (-8)) = Inr [0xfff8097b]"
  "encodeInstruction (StDW Reg_R9 (ImmOperand 1337) (-8)) = Inr [0x539fff8097a]"
  "encodeInstruction (StW Reg_R9 (RegOperand Reg_R0) (-8)) = Inr [0xfff80963]"
  "encodeInstruction (StW Reg_R9 (ImmOperand 1337) (-8)) = Inr [0x539fff80962]"
  "encodeInstruction (StH Reg_R9 (RegOperand Reg_R0) (-8)) = Inr [0xfff8096b]"
  "encodeInstruction (StH Reg_R9 (ImmOperand 1337) (-8)) = Inr [0x539fff8096a]"
  "encodeInstruction (StB Reg_R9 (RegOperand Reg_R0) (-8)) = Inr [0xfff80973]"
  "encodeInstruction (StB Reg_R9 (ImmOperand 1337) (-8)) = Inr [0x539fff80972]"
  "encodeInstruction (LdDW Reg_R9 Reg_R0 (-8)) = Inr [0xfff80979]"
  "encodeInstruction (LdW Reg_R9 Reg_R0 (-8)) = Inr [0xfff80961]"
  "encodeInstruction (LdH Reg_R9 Reg_R0 (-8)) = Inr [0xfff80969]"
  "encodeInstruction (LdB Reg_R9 Reg_R0 (-8)) = Inr [0xfff80971]"
  "encodeInstruction (LdMapByFd Reg_R9 42) = Inr [0x2a00001918, 0]"
  by code_simp+

text \<open>
  C2, as stated: the immediate double-word store of 1337 encodes to the two words
  0x539 and 0xfff8097a.  It encodes to one word, as every instruction but the map load
  does; the test expects the one-element list 0x539fff8097a.
\<close>

theorem StDW_immediate_two_words_counterexample:
  "encodeInstruction (StDW Reg_R9 (ImmOperand 1337) (-8)) \<noteq> Inr [0x539, 0xfff8097a]"
  by code_simp

text \<open>
  C2, amended.  The double-word store of register 0 to register 9 at offset -8 encodes to
  the single word 0xfff8097b; the double-word store of the immediate 1337 at the same
  offset and destination encodes to the single word 0x539fff8097a, the immediate 0x539 in
  its upper 32 bits above 0xfff8097a.
\<close>

theorem StDW_encoding:
  "encodeInstruction (StDW Reg_R9 (RegOperand Reg_R0) (-8)) = Inr [0xfff8097b]
   \<and> encodeInstruction (StDW Reg_R9 (ImmOperand 1337) (-8)) = Inr [0x539fff8097a]
   \<and> (0x539fff8097a :: 64 word) = push_bit 32 0x539 OR 0xfff8097a"
  by code_simp

text \<open>The first row of the jump test: an unconditional jump with jump-true 1.\<close>

lemma JmpJA_test_row:
  "jmp_fields (JmpJA 1) = (cbpf_InsClassJmp, SrcOperand_Immediate, JmpOperationCode_JmpJA, 0)
   \<and> Jt (JmpJA 1) = 1 \<and> Jf (JmpJA 1) = 0"
  by code_simp

text \<open>
  C8.  For each of JmpEQ, JmpGT, JmpGE and JmpSET, whatever the branch offsets: with a
  register operand \<open>x\<close> (so with the register X) the source-operand bit reads register
  source and the comparand K is the register's numeric identifier; with an immediate
  operand \<open>k\<close> the bit reads immediate source and K is \<open>k\<close>; in both cases the low 3 bits
  of the opcode are the jump class and its bits 4-7 the operation code of the
  constructor.
\<close>

theorem cbpf_jump_constructors:
  "jmp_fields (JmpEQ jt jf (RegOperand x)) = (cbpf_InsClassJmp, SrcOperand_RegSrc, JmpOperationCode_JmpJEQ, x)
   \<and> jmp_fields (JmpEQ jt jf (ImmOperand k)) = (cbpf_InsClassJmp, SrcOperand_Immediate, JmpOperationCode_JmpJEQ, k)
   \<and> jmp_fields (JmpGT jt jf (RegOperand x)) = (cbpf_InsClassJmp, SrcOperand_RegSrc, JmpOperationCode_JmpJGT, x)
   \<and> jmp_fields (JmpGT jt jf (ImmOperand k)) = (cbpf_InsClassJmp, SrcOperand_Immediate, JmpOperationCode_JmpJGT, k)
   \<and> jmp_fields (JmpGE jt jf (RegOperand x)) = (cbpf_InsClassJmp, SrcOperand_RegSrc, JmpOperationCode_JmpJGE, x)
   \<and> jmp_fields (JmpGE jt jf (ImmOperand k)) = (cbpf_InsClassJmp, SrcOperand_Immediate, JmpOperationCode_JmpJGE, k)
   \<and> jmp_fields (JmpSET jt jf (RegOperand x)) = (cbpf_InsClassJmp, SrcOperand_RegSrc, JmpOperationCode_JmpJSET, x)
   \<and> jmp_fields (JmpSET jt jf (ImmOperand k)) = (cbpf_InsClassJmp, SrcOperand_Immediate, JmpOperationCode_JmpJSET, k)
   \<and> SrcOperand_RegSrc \<noteq> SrcOperand_Immediate"
  by (simp add: jmp_fields_def JmpEQ_def JmpGT_def JmpGE_def JmpSET_def newJmpInstruction_def
      cbpf_InsClassJmp_def SrcOperand_RegSrc_def SrcOperand_Immediate_def
      JmpOperationCode_JmpJEQ_def JmpOperationCode_JmpJGT_def JmpOperationCode_JmpJGE_def
      JmpOperationCode_JmpJSET_def)

end
